theory Spec2Isabelle
  imports Main
begin

section \<open>The background script of the pull request monitor\<close>

text \<open>
  This theory embeds \<^verbatim>\<open>src/background.ts\<close>: the loop that picks the pull requests
  concerning the viewer (\<open>loadPullRequests\<close>), the loop that drops the ones the viewer
  has dealt with (\<open>excludeReviewedPullRequests\<close>), the notification step
  (\<open>showNotificationForNewPullRequests\<close>) and the cycle that runs them
  (\<open>checkPullRequests\<close>).
\<close>

subsection \<open>Numbers\<close>

text \<open>
  \<^verbatim>\<open>new Date(s).getTime()\<close> is a whole number of milliseconds counted from the epoch,
  negative for a date before 1970, or \<open>NaN\<close> when \<open>s\<close> is not a date. These are the only
  numbers the classifier handles. \<^verbatim>\<open>Math.max\<close> returns \<open>NaN\<close> as soon as one argument
  is \<open>NaN\<close>, and every comparison with \<open>NaN\<close> is false.
\<close>

datatype number = NaN | Num int

fun Math_max :: "number \<Rightarrow> number \<Rightarrow> number" where
  "Math_max (Num a) (Num b) = Num (max a b)"
| "Math_max NaN b = NaN"
| "Math_max a NaN = NaN"

fun js_greater :: "number \<Rightarrow> number \<Rightarrow> bool" where
  "js_greater (Num a) (Num b) = (b < a)"
| "js_greater NaN b = False"
| "js_greater a NaN = False"

subsection \<open>The fetched data\<close>

text \<open>
  The records follow the GraphQL query of \<open>loadPullRequests\<close>. An \<open>author { login }\<close>
  object is kept as its login, in the field \<open>author\<close> that pull requests, reviews and
  comments share. A date field holds the value \<open>getTime()\<close> gives for its string. A
  requested reviewer that is not a user has no login (the query asks for it
  \<^verbatim>\<open>... on User\<close> only), hence the option.
\<close>

record Authored =
  author :: string

record Comment = Authored +
  createdAt :: number

record Review = Comment +
  state :: string

record PullRequest = Authored +
  url :: string
  title :: string
  updatedAt :: number
  reviews :: "Review list"
  comments :: "Comment list"
  assignees :: "string list"
  reviewRequests :: "string option list"

subsection \<open>Sets\<close>

text \<open>
  A JavaScript \<open>Set\<close> keeps its elements in insertion order and ignores the insertion
  of an element it holds: a list without repetition, newest element last. Elements are
  compared with HOL equality, so two fetched nodes that agree in every field are one
  element here.
\<close>

definition Set_has :: "'a list \<Rightarrow> 'a \<Rightarrow> bool" where
  "Set_has s x = (x \<in> set s)"

definition Set_add :: "'a list \<Rightarrow> 'a \<Rightarrow> 'a list" where
  "Set_add s x = (if Set_has s x then s else s @ [x])"

definition new_Set :: "'a list \<Rightarrow> 'a list" where
  "new_Set xs = fold (\<lambda>x s. Set_add s x) xs []"

subsection \<open>The classifier\<close>

definition getLastUpdatedTime :: "PullRequest \<Rightarrow> number" where
  "getLastUpdatedTime pullRequest = updatedAt pullRequest"

text \<open>
  The two inner loops of \<open>excludeReviewedPullRequests\<close>. The first carries
  \<open>lastReviewedOrCommentedAtTime\<close> and \<open>approvedByViewer\<close>, the second only the time.
\<close>

fun reviews_loop :: "string \<Rightarrow> Review list \<Rightarrow> number \<times> bool \<Rightarrow> number \<times> bool" where
  "reviews_loop login [] acc = acc"
| "reviews_loop login (review # rest) (lastReviewedOrCommentedAtTime, approvedByViewer) =
     (if author review \<noteq> login
      then reviews_loop login rest (lastReviewedOrCommentedAtTime, approvedByViewer)
      else
        let approvedByViewer' = (if state review = ''APPROVED'' then True else approvedByViewer);
            reviewTime = createdAt review
        in reviews_loop login rest
             (Math_max reviewTime lastReviewedOrCommentedAtTime, approvedByViewer'))"

fun comments_loop :: "string \<Rightarrow> Comment list \<Rightarrow> number \<Rightarrow> number" where
  "comments_loop login [] lastReviewedOrCommentedAtTime = lastReviewedOrCommentedAtTime"
| "comments_loop login (comment # rest) lastReviewedOrCommentedAtTime =
     (if author comment \<noteq> login
      then comments_loop login rest lastReviewedOrCommentedAtTime
      else
        let commentTime = createdAt comment
        in comments_loop login rest (Math_max commentTime lastReviewedOrCommentedAtTime))"

text \<open>The body of the outer loop up to the constant \<open>isReviewed\<close>.\<close>

definition isReviewed :: "string \<Rightarrow> PullRequest \<Rightarrow> bool" where
  "isReviewed login pullRequest =
     (let lastUpdatedTime = getLastUpdatedTime pullRequest;
          (afterReviews, approvedByViewer) =
             reviews_loop login (reviews pullRequest) (Num 0, False);
          lastReviewedOrCommentedAtTime =
             comments_loop login (comments pullRequest) afterReviews
      in approvedByViewer \<or> js_greater lastReviewedOrCommentedAtTime lastUpdatedTime)"

fun exclude_loop :: "string \<Rightarrow> PullRequest list \<Rightarrow> PullRequest list \<Rightarrow> PullRequest list" where
  "exclude_loop login [] unreviewedPullRequests = unreviewedPullRequests"
| "exclude_loop login (pullRequest # rest) unreviewedPullRequests =
     (if \<not> isReviewed login pullRequest
      then exclude_loop login rest (Set_add unreviewedPullRequests pullRequest)
      else exclude_loop login rest unreviewedPullRequests)"

definition excludeReviewedPullRequests :: "string \<Rightarrow> PullRequest list \<Rightarrow> PullRequest list" where
  "excludeReviewedPullRequests login pullRequests = exclude_loop login pullRequests []"

subsection \<open>The relevance filter\<close>

text \<open>
  The answer of the GraphQL endpoint. \<open>errors\<close> holds the messages of \<open>result.errors\<close>
  when the field is there, \<open>result_message\<close> is \<open>result.message\<close>, \<open>data\<close> is
  \<open>result.data.viewer\<close>, and \<open>pullRequestNodes\<close> is \<open>repository.pullRequests.nodes\<close>.
\<close>

record Repository =
  nameWithOwner :: string
  pullRequestNodes :: "PullRequest list"

record Viewer =
  viewer_login :: string
  repositories :: "Repository list"

record Result =
  errors :: "string list option"
  result_message :: "string option"
  data :: "Viewer option"

datatype exn = Error (message: string)

text \<open>
  Reading a property of \<open>undefined\<close> throws a \<open>TypeError\<close>; the text of its message is
  the engine's.
\<close>

definition TypeError :: exn where
  "TypeError = Error ''TypeError''"

record Response =
  status :: nat
  json :: "exn + Result"

text \<open>The three \<open>for\<close> loops over the assignees, review requests and reviews of one node.\<close>

definition assignees_loop :: "string \<Rightarrow> PullRequest \<Rightarrow> PullRequest list \<Rightarrow> PullRequest list" where
  "assignees_loop login pullRequest s =
     fold (\<lambda>assignee s. if assignee = login then Set_add s pullRequest else s)
       (assignees pullRequest) s"

definition reviewRequests_loop :: "string \<Rightarrow> PullRequest \<Rightarrow> PullRequest list \<Rightarrow> PullRequest list" where
  "reviewRequests_loop login pullRequest s =
     fold (\<lambda>reviewRequest s. if reviewRequest = Some login then Set_add s pullRequest else s)
       (reviewRequests pullRequest) s"

definition reviewers_loop :: "string \<Rightarrow> PullRequest \<Rightarrow> PullRequest list \<Rightarrow> PullRequest list" where
  "reviewers_loop login pullRequest s =
     fold (\<lambda>review s. if author review = login then Set_add s pullRequest else s)
       (reviews pullRequest) s"

text \<open>The loop over the pull requests of one repository, with its \<open>continue\<close>.\<close>

definition pullRequest_loop :: "string \<Rightarrow> PullRequest list \<Rightarrow> PullRequest list \<Rightarrow> PullRequest list" where
  "pullRequest_loop login nodes s =
     fold (\<lambda>pullRequest s.
             if author pullRequest = login then s
             else reviewers_loop login pullRequest
                    (reviewRequests_loop login pullRequest
                      (assignees_loop login pullRequest s)))
       nodes s"

definition repository_loop :: "string \<Rightarrow> Repository list \<Rightarrow> PullRequest list \<Rightarrow> PullRequest list" where
  "repository_loop login repos s =
     fold (\<lambda>repository s. pullRequest_loop login (pullRequestNodes repository) s) repos s"

subsection \<open>The browser\<close>

text \<open>
  What the script does to the browser: the three storage keys it writes, the badge, and
  the list of every call it makes, oldest first.
\<close>

record NotificationOptions =
  n_type :: string
  n_iconUrl :: string
  n_title :: string
  n_message :: string
  n_requireInteraction :: bool

datatype call =
    Call_getGitHubApiToken
  | Call_fetch string
  | Console_error
  | Console_log string
  | Storage_set_unreviewedPullRequests "PullRequest list"
  | Storage_get_lastSeenPullRequests
  | Storage_set_lastSeenPullRequests "string list"
  | Storage_set_error "string option"
  | BrowserAction_setBadgeText string
  | BrowserAction_setBadgeBackgroundColor string
  | Notifications_create string NotificationOptions

record Storage =
  unreviewedPullRequests :: "PullRequest list option"
  lastSeenPullRequests :: "string list option"
  error :: "string option option"

record World =
  storage :: Storage
  badgeText :: string
  badgeBackgroundColor :: string
  calls :: "call list"

text \<open>
  What the script cannot decide: the token \<open>getGitHubApiToken\<close> resolves to or the
  error it rejects with, the answer to the request, and, for each later step awaited in
  the \<open>try\<close> block, the error it throws if it throws. Such a step throws before it
  changes anything. The \<open>catch\<close> clause and the last write are calls of the browser
  with constant arguments and go through.
\<close>

datatype step = SaveUnreviewedPullRequests | UpdateBadge | ShowNotificationForNewPullRequests

record Env =
  getGitHubApiToken :: "exn + string"
  fetch :: "string \<Rightarrow> exn + Response"
  throws :: "step \<Rightarrow> exn option"

definition log_call :: "call \<Rightarrow> World \<Rightarrow> World" where
  "log_call c w = w\<lparr>calls := calls w @ [c]\<rparr>"

text \<open>
  \<open>loadPullRequests\<close> from the creation of the set on: \<open>result.data.viewer\<close> is read
  and the loops run.
\<close>

definition selectPullRequests :: "Result \<Rightarrow> exn + string \<times> PullRequest list" where
  "selectPullRequests result =
     (case data result of
        None \<Rightarrow> Inl TypeError
      | Some viewer \<Rightarrow>
          Inr (viewer_login viewer,
               repository_loop (viewer_login viewer) (repositories viewer) []))"

text \<open>
  An array is truthy even when empty, so \<open>result.errors[0]\<close> may be \<open>undefined\<close>; a
  string is truthy unless empty.
\<close>

definition loadPullRequests ::
  "Env \<Rightarrow> string \<Rightarrow> World \<Rightarrow> (exn + string \<times> PullRequest list) \<times> World" where
  "loadPullRequests env token w =
     (let w1 = log_call (Call_fetch token) w in
      case fetch env token of
        Inl e \<Rightarrow> (Inl e, w1)
      | Inr response \<Rightarrow>
          (case json response of
             Inl e \<Rightarrow> (Inl e, w1)
           | Inr result \<Rightarrow>
               (case errors result of
                  Some [] \<Rightarrow> (Inl TypeError, log_call Console_error w1)
                | Some (m # ms) \<Rightarrow> (Inl (Error m), log_call Console_error w1)
                | None \<Rightarrow>
                    (case result_message result of
                       Some (c # cs) \<Rightarrow>
                         if status response \<noteq> 200
                         then (Inl (Error (c # cs)), log_call Console_error w1)
                         else (selectPullRequests result, w1)
                     | _ \<Rightarrow> (selectPullRequests result, w1)))))"

subsection \<open>Saving, badge and notifications\<close>

text \<open>
  A write to \<^verbatim>\<open>chrome.storage.local\<close> takes effect when it is issued, so the writes land
  in the order of the calls. \<open>recordSeenPullRequests\<close> is \<open>async\<close> but holds no
  \<open>await\<close>: its write is issued before \<open>showNotificationForNewPullRequests\<close> returns.
\<close>

definition saveUnreviewedPullRequests :: "PullRequest list \<Rightarrow> World \<Rightarrow> World" where
  "saveUnreviewedPullRequests pullRequests w =
     log_call (Storage_set_unreviewedPullRequests pullRequests)
       (w\<lparr>storage := (storage w)\<lparr>unreviewedPullRequests := Some pullRequests\<rparr>\<rparr>)"

text \<open>\<^verbatim>\<open>"" + prCount\<close>: the decimal digits of the count.\<close>

fun digit :: "nat \<Rightarrow> char" where
  "digit n = ''0123456789'' ! n"

fun toString :: "nat \<Rightarrow> string" where
  "toString n = (if n < 10 then [digit n] else toString (n div 10) @ [digit (n mod 10)])"

definition setBadgeText :: "string \<Rightarrow> World \<Rightarrow> World" where
  "setBadgeText text w = log_call (BrowserAction_setBadgeText text) (w\<lparr>badgeText := text\<rparr>)"

definition setBadgeBackgroundColor :: "string \<Rightarrow> World \<Rightarrow> World" where
  "setBadgeBackgroundColor color w =
     log_call (BrowserAction_setBadgeBackgroundColor color) (w\<lparr>badgeBackgroundColor := color\<rparr>)"

definition updateBadge :: "nat \<Rightarrow> World \<Rightarrow> World" where
  "updateBadge prCount w =
     setBadgeBackgroundColor (if prCount = 0 then ''#4d4'' else ''#f00'')
       (setBadgeText (toString prCount) w)"

definition showBadgeError :: "World \<Rightarrow> World" where
  "showBadgeError w = setBadgeBackgroundColor ''#000'' (setBadgeText ''!'' w)"

definition showNotification :: "PullRequest \<Rightarrow> World \<Rightarrow> World" where
  "showNotification pullRequest w =
     (let notificationId = url pullRequest in
      log_call
        (Notifications_create notificationId
           \<lparr>n_type = ''basic'', n_iconUrl = ''images/GitHub-Mark-120px-plus.png'',
            n_title = ''New pull request'', n_message = title pullRequest,
            n_requireInteraction = True\<rparr>) w)"

definition recordSeenPullRequests :: "PullRequest list \<Rightarrow> World \<Rightarrow> World" where
  "recordSeenPullRequests pullRequests w =
     log_call (Storage_set_lastSeenPullRequests (map url pullRequests))
       (w\<lparr>storage := (storage w)\<lparr>lastSeenPullRequests := Some (map url pullRequests)\<rparr>\<rparr>)"

text \<open>\<^verbatim>\<open>result.lastSeenPullRequests || []\<close>: the empty list when the key was never written.\<close>

definition getLastSeenPullRequestsUrls :: "World \<Rightarrow> string list \<times> World" where
  "getLastSeenPullRequestsUrls w =
     (case lastSeenPullRequests (storage w) of None \<Rightarrow> [] | Some urls \<Rightarrow> urls,
      log_call Storage_get_lastSeenPullRequests w)"

definition notify_loop :: "string list \<Rightarrow> PullRequest list \<Rightarrow> World \<Rightarrow> World" where
  "notify_loop lastSeenPullRequestUrls pullRequests w =
     fold (\<lambda>pullRequest w.
             if \<not> Set_has lastSeenPullRequestUrls (url pullRequest)
             then showNotification pullRequest
                    (log_call (Console_log (''Showing '' @ url pullRequest)) w)
             else log_call (Console_log (''Filtering '' @ url pullRequest)) w)
       pullRequests w"

definition showNotificationForNewPullRequests :: "PullRequest list \<Rightarrow> World \<Rightarrow> World" where
  "showNotificationForNewPullRequests pullRequests w =
     (let (urls, w1) = getLastSeenPullRequestsUrls w;
          lastSeenPullRequestUrls = new_Set urls
      in recordSeenPullRequests pullRequests
           (notify_loop lastSeenPullRequestUrls pullRequests w1))"

subsection \<open>One cycle\<close>

text \<open>A step awaited in the \<open>try\<close> block: it throws when the environment says so.\<close>

definition attempt :: "Env \<Rightarrow> step \<Rightarrow> (World \<Rightarrow> World) \<Rightarrow> World \<Rightarrow> exn option \<times> World" where
  "attempt env s f w = (case throws env s of Some e \<Rightarrow> (Some e, w) | None \<Rightarrow> (None, f w))"

text \<open>The \<open>try\<close> block: the error caught, if any, and the browser where it stopped.\<close>

definition try_block :: "Env \<Rightarrow> World \<Rightarrow> exn option \<times> World" where
  "try_block env w =
     (let w0 = log_call Call_getGitHubApiToken w in
      case getGitHubApiToken env of
        Inl e \<Rightarrow> (Some e, w0)
      | Inr token \<Rightarrow>
          (case loadPullRequests env token w0 of
             (Inl e, w1) \<Rightarrow> (Some e, w1)
           | (Inr (login, pullRequests), w1) \<Rightarrow>
               (let unreviewedPullRequests = excludeReviewedPullRequests login pullRequests in
                case attempt env SaveUnreviewedPullRequests
                       (saveUnreviewedPullRequests unreviewedPullRequests) w1 of
                  (Some e, w2) \<Rightarrow> (Some e, w2)
                | (None, w2) \<Rightarrow>
                    (case attempt env UpdateBadge
                            (updateBadge (length unreviewedPullRequests)) w2 of
                       (Some e, w3) \<Rightarrow> (Some e, w3)
                     | (None, w3) \<Rightarrow>
                         attempt env ShowNotificationForNewPullRequests
                           (showNotificationForNewPullRequests unreviewedPullRequests) w3))))"

definition set_error :: "string option \<Rightarrow> World \<Rightarrow> World" where
  "set_error m w =
     log_call (Storage_set_error m) (w\<lparr>storage := (storage w)\<lparr>error := Some m\<rparr>\<rparr>)"

definition checkPullRequests :: "Env \<Rightarrow> World \<Rightarrow> World" where
  "checkPullRequests env w =
     (case try_block env w of
        (None, w') \<Rightarrow> set_error None w'
      | (Some e, w') \<Rightarrow> set_error (Some (message e)) (showBadgeError w'))"

subsection \<open>Vocabulary of the properties\<close>

text \<open>
  The dates of the reviews and comments of the viewer, in the order the two loops meet
  them: the values handed to \<^verbatim>\<open>Math.max\<close>.
\<close>

definition viewerTimes :: "string \<Rightarrow> PullRequest \<Rightarrow> number list" where
  "viewerTimes login pullRequest =
     map createdAt (filter (\<lambda>review. author review = login) (reviews pullRequest)) @
     map createdAt (filter (\<lambda>comment. author comment = login) (comments pullRequest))"

text \<open>
  The dates the GitHub answer carries: they parse and are not before the epoch. The
  time of \<open>excludeReviewedPullRequests\<close> starts at the epoch, 0, and the boundary
  properties of the classifier are about such dates.
\<close>

fun realDate :: "number \<Rightarrow> bool" where
  "realDate (Num t) = (0 \<le> t)"
| "realDate NaN = False"

text \<open>
  The notifications a list of calls creates, oldest first: the identifier and the
  options of each \<^verbatim>\<open>chrome.notifications.create\<close>.
\<close>

fun created :: "call list \<Rightarrow> (string \<times> NotificationOptions) list" where
  "created [] = []"
| "created (Notifications_create notificationId options # cs) =
     (notificationId, options) # created cs"
| "created (c # cs) = created cs"

subsection \<open>Sample data\<close>

text \<open>Pull requests of \<open>bob\<close> as the viewer \<open>me\<close> may receive them.\<close>

definition pr_approved :: PullRequest where
  "pr_approved =
     \<lparr>author = ''bob'', url = ''https://github.com/o/r/pull/1'', title = ''Fix'',
      updatedAt = Num 99,
      reviews = [\<lparr>author = ''me'', createdAt = Num 10, state = ''APPROVED''\<rparr>],
      comments = [\<lparr>author = ''me'', createdAt = Num 20\<rparr>],
      assignees = [], reviewRequests = []\<rparr>"

definition pr_later :: PullRequest where
  "pr_later =
     \<lparr>author = ''bob'', url = ''https://github.com/o/r/pull/2'', title = ''Add'',
      updatedAt = Num 50,
      reviews = [\<lparr>author = ''me'', createdAt = Num 60, state = ''COMMENTED''\<rparr>],
      comments = [], assignees = [''me''], reviewRequests = []\<rparr>"

definition pr_equal :: PullRequest where
  "pr_equal =
     \<lparr>author = ''bob'', url = ''https://github.com/o/r/pull/3'', title = ''Tidy'',
      updatedAt = Num 50,
      reviews = [\<lparr>author = ''me'', createdAt = Num 40, state = ''COMMENTED''\<rparr>],
      comments = [\<lparr>author = ''me'', createdAt = Num 50\<rparr>],
      assignees = [''me''], reviewRequests = []\<rparr>"

definition pr_untouched :: PullRequest where
  "pr_untouched =
     \<lparr>author = ''bob'', url = ''https://github.com/o/r/pull/6'', title = ''New'',
      updatedAt = Num 50,
      reviews = [\<lparr>author = ''eve'', createdAt = Num 70, state = ''APPROVED''\<rparr>],
      comments = [\<lparr>author = ''bob'', createdAt = Num 80\<rparr>],
      assignees = [''me''], reviewRequests = []\<rparr>"


definition pr_own :: PullRequest where
  "pr_own =
     \<lparr>author = ''me'', url = ''https://github.com/o/s/pull/8'', title = ''Mine'',
      updatedAt = Num 50,
      reviews = [\<lparr>author = ''me'', createdAt = Num 30, state = ''COMMENTED''\<rparr>],
      comments = [], assignees = [''me''], reviewRequests = [Some ''me'']\<rparr>"

definition pr_foreign :: PullRequest where
  "pr_foreign =
     \<lparr>author = ''bob'', url = ''https://github.com/o/s/pull/9'', title = ''Theirs'',
      updatedAt = Num 50, reviews = [], comments = [],
      assignees = [''eve''], reviewRequests = [None, Some ''eve'']\<rparr>"

text \<open>
  An answer with two repositories, the browser of a fresh installation, and an
  environment in which nothing fails.
\<close>

definition repo_sample :: "Repository list" where
  "repo_sample =
     [\<lparr>nameWithOwner = ''o/r'', pullRequestNodes = [pr_approved, pr_untouched]\<rparr>,
      \<lparr>nameWithOwner = ''o/s'', pullRequestNodes = [pr_own, pr_foreign]\<rparr>]"

definition result_sample :: Result where
  "result_sample =
     \<lparr>errors = None, result_message = None,
      data = Some \<lparr>viewer_login = ''me'', repositories = repo_sample\<rparr>\<rparr>"

definition world0 :: World where
  "world0 =
     \<lparr>storage = \<lparr>unreviewedPullRequests = None, lastSeenPullRequests = None, error = None\<rparr>,
      badgeText = [], badgeBackgroundColor = [], calls = []\<rparr>"

definition env_sample :: Env where
  "env_sample =
     \<lparr>getGitHubApiToken = Inr ''token'',
      fetch = (\<lambda>token. Inr \<lparr>status = 200, json = Inr result_sample\<rparr>),
      throws = (\<lambda>s. None)\<rparr>"

text \<open>
  The browser after a cycle that found \<open>pr_untouched\<close>, an environment without
  network, and one in which updating the badge throws.
\<close>

definition world_seen :: World where
  "world_seen =
     \<lparr>storage = \<lparr>unreviewedPullRequests = Some [pr_untouched],
                 lastSeenPullRequests = Some [''https://github.com/o/r/pull/6''],
                 error = Some None\<rparr>,
      badgeText = ''1'', badgeBackgroundColor = ''#f00'', calls = []\<rparr>"

definition env_offline :: Env where
  "env_offline =
     \<lparr>getGitHubApiToken = Inr ''token'',
      fetch = (\<lambda>token. Inl (Error ''Failed to fetch'')),
      throws = (\<lambda>s. None)\<rparr>"

definition env_badge_throws :: Env where
  "env_badge_throws =
     \<lparr>getGitHubApiToken = Inr ''token'',
      fetch = (\<lambda>token. Inr \<lparr>status = 200, json = Inr result_sample\<rparr>),
      throws = (\<lambda>s. if s = UpdateBadge then Some (Error ''No badge'') else None)\<rparr>"

section \<open>Properties of the classifier\<close>

lemma set_Set_add: "set (Set_add s x) = insert x (set s)"
  by (auto simp: Set_add_def Set_has_def)

lemma distinct_Set_add: "distinct s \<Longrightarrow> distinct (Set_add s x)"
  by (simp add: Set_add_def Set_has_def)

lemma set_exclude_loop:
  "set (exclude_loop login prs acc) = set acc \<union> {p \<in> set prs. \<not> isReviewed login p}"
  by (induction prs arbitrary: acc) (auto simp: set_Set_add)

lemma set_excludeReviewedPullRequests:
  "set (excludeReviewedPullRequests login prs) = {p \<in> set prs. \<not> isReviewed login p}"
  by (simp add: excludeReviewedPullRequests_def set_exclude_loop)

lemma distinct_exclude_loop:
  "distinct acc \<Longrightarrow> distinct (exclude_loop login prs acc)"
  by (induction prs arbitrary: acc) (simp_all add: distinct_Set_add)

lemma distinct_excludeReviewedPullRequests:
  "distinct (excludeReviewedPullRequests login prs)"
  by (simp add: excludeReviewedPullRequests_def distinct_exclude_loop)

lemma reviews_loop_approved_mono:
  "snd (reviews_loop login rs (t, True)) = True"
  by (induction rs arbitrary: t) (simp_all add: Let_def)

lemma reviews_loop_approved:
  "\<exists>r\<in>set rs. author r = login \<and> state r = ''APPROVED'' \<Longrightarrow>
   snd (reviews_loop login rs (t, a)) = True"
proof (induction rs arbitrary: t a)
  case Nil
  then show ?case by simp
next
  case (Cons r rs)
  show ?case
  proof (cases "author r = login \<and> state r = ''APPROVED''")
    case True
    then show ?thesis by (simp add: Let_def reviews_loop_approved_mono)
  next
    case False
    with Cons.prems have "\<exists>r\<in>set rs. author r = login \<and> state r = ''APPROVED''" by auto
    then show ?thesis using Cons.IH by (simp add: Let_def)
  qed
qed

lemma isReviewed_unfold:
  "isReviewed login p =
     (snd (reviews_loop login (reviews p) (Num 0, False)) \<or>
      js_greater
        (comments_loop login (comments p) (fst (reviews_loop login (reviews p) (Num 0, False))))
        (updatedAt p))"
  by (simp add: isReviewed_def getLastUpdatedTime_def split: prod.splits)

lemma Math_max_NaN_right: "Math_max t NaN = NaN"
  by (cases t) simp_all

lemma fold_Math_max_NaN: "fold Math_max ts NaN = NaN"
  by (induction ts) (simp_all add: Math_max_NaN_right)

lemma fold_Math_max_has_NaN: "NaN \<in> set ts \<Longrightarrow> fold Math_max ts acc = NaN"
proof (induction ts arbitrary: acc)
  case Nil
  then show ?case by simp
next
  case (Cons t ts)
  show ?case
  proof (cases "t = NaN")
    case True
    then show ?thesis by (simp add: fold_Math_max_NaN)
  next
    case False
    with Cons.prems have "NaN \<in> set ts" by simp
    then show ?thesis using Cons.IH by simp
  qed
qed

lemma fold_Math_max_not_greater:
  "\<not> js_greater acc u \<Longrightarrow> \<forall>t\<in>set ts. \<not> js_greater t u \<Longrightarrow> \<not> js_greater (fold Math_max ts acc) u"
proof (induction ts arbitrary: acc)
  case Nil
  then show ?case by simp
next
  case (Cons t ts)
  have "\<not> js_greater (Math_max t acc) u"
    using Cons.prems by (cases t; cases acc; cases u) auto
  then show ?case using Cons.IH Cons.prems by simp
qed

lemma fold_Math_max_Num:
  "NaN \<notin> set ts \<Longrightarrow>
   \<exists>b. fold Math_max ts (Num a) = Num b \<and> a \<le> b \<and> (\<forall>t. Num t \<in> set ts \<longrightarrow> t \<le> b)"
proof (induction ts arbitrary: a)
  case Nil
  then show ?case by simp
next
  case (Cons t ts)
  from Cons.prems obtain x where t: "t = Num x" by (cases t) auto
  from Cons.prems have "NaN \<notin> set ts" by simp
  from Cons.IH[OF this, of "max x a"] obtain b where
    b: "fold Math_max ts (Num (max x a)) = Num b" "max x a \<le> b" "\<forall>t. Num t \<in> set ts \<longrightarrow> t \<le> b"
    by blast
  then show ?case using t by auto
qed

lemma fst_reviews_loop:
  "fst (reviews_loop login rs (t, a)) =
     fold Math_max (map createdAt (filter (\<lambda>r. author r = login) rs)) t"
  by (induction rs arbitrary: t a) (simp_all add: Let_def)

lemma snd_reviews_loop:
  "snd (reviews_loop login rs (t, a)) =
     (a \<or> (\<exists>r\<in>set rs. author r = login \<and> state r = ''APPROVED''))"
  by (induction rs arbitrary: t a) (auto simp: Let_def)

lemma comments_loop_fold:
  "comments_loop login cs t =
     fold Math_max (map createdAt (filter (\<lambda>c. author c = login) cs)) t"
  by (induction cs arbitrary: t) (simp_all add: Let_def)

lemma isReviewed_iff:
  "isReviewed login p =
     ((\<exists>r\<in>set (reviews p). author r = login \<and> state r = ''APPROVED'') \<or>
      js_greater
        (fold Math_max
           (map createdAt (filter (\<lambda>r. author r = login) (reviews p)) @
            map createdAt (filter (\<lambda>c. author c = login) (comments p)))
           (Num 0))
        (updatedAt p))"
  by (simp add: isReviewed_unfold fst_reviews_loop snd_reviews_loop comments_loop_fold)

lemma isReviewed_viewerTimes:
  "isReviewed login p =
     ((\<exists>r\<in>set (reviews p). author r = login \<and> state r = ''APPROVED'') \<or>
      js_greater (fold Math_max (viewerTimes login p) (Num 0)) (updatedAt p))"
  by (simp add: isReviewed_iff viewerTimes_def)

text \<open>
  C1. A pull request with a review by the viewer in state APPROVED is never in the
  unreviewed set, whatever its \<open>updatedAt\<close> and whatever the other reviews and comments.
\<close>

theorem approved_is_never_unreviewed:
  assumes "\<exists>r\<in>set (reviews pullRequest). author r = login \<and> state r = ''APPROVED''"
  shows "isReviewed login pullRequest \<and>
         pullRequest \<notin> set (excludeReviewedPullRequests login pullRequests)"
proof -
  from assms have "snd (reviews_loop login (reviews pullRequest) (Num 0, False)) = True"
    by (rule reviews_loop_approved)
  then have "isReviewed login pullRequest"
    by (simp add: isReviewed_unfold)
  then show ?thesis
    by (simp add: set_excludeReviewedPullRequests)
qed

theorem approved_is_never_unreviewed_witness:
  "(\<exists>r\<in>set (reviews pr_approved). author r = ''me'' \<and> state r = ''APPROVED'') \<and>
   js_greater (updatedAt pr_approved) (Num 20) \<and>
   isReviewed ''me'' pr_approved \<and>
   pr_approved \<notin> set (excludeReviewedPullRequests ''me'' [pr_approved])"
  using approved_is_never_unreviewed [of pr_approved "''me''" "[pr_approved]"]
  by (simp add: pr_approved_def)

lemma realDate_not_NaN: "\<forall>t\<in>set ts. realDate t \<Longrightarrow> NaN \<notin> set ts"
  by auto

lemma realDate_not_before_sentinel: "realDate u \<Longrightarrow> \<not> js_greater (Num 0) u"
  by (cases u) simp_all

text \<open>
  C2. Without an approval by the viewer and with real dates on the reviews and comments
  of the viewer: when one of them is strictly later than \<open>updatedAt\<close>, the pull request
  is reviewed; when the latest of them equals \<open>updatedAt\<close> (one of them is
  \<open>updatedAt\<close> and none is later), the pull request is unreviewed. Equal dates do not
  count as reviewed.
\<close>

theorem strict_boundary:
  assumes "\<not> (\<exists>r\<in>set (reviews pullRequest). author r = login \<and> state r = ''APPROVED'')"
    and "\<forall>t\<in>set (viewerTimes login pullRequest). realDate t"
  shows "((\<exists>t\<in>set (viewerTimes login pullRequest). js_greater t (updatedAt pullRequest))
          \<longrightarrow> isReviewed login pullRequest \<and>
              pullRequest \<notin> set (excludeReviewedPullRequests login pullRequests)) \<and>
         (updatedAt pullRequest \<in> set (viewerTimes login pullRequest) \<and>
          (\<forall>t\<in>set (viewerTimes login pullRequest). \<not> js_greater t (updatedAt pullRequest)) \<and>
          pullRequest \<in> set pullRequests
          \<longrightarrow> \<not> isReviewed login pullRequest \<and>
              pullRequest \<in> set (excludeReviewedPullRequests login pullRequests))"
proof (intro conjI impI)
  assume "\<exists>t\<in>set (viewerTimes login pullRequest). js_greater t (updatedAt pullRequest)"
  then obtain t where t: "t \<in> set (viewerTimes login pullRequest)"
    and gt: "js_greater t (updatedAt pullRequest)" by blast
  from gt obtain x u where x: "t = Num x" and u: "updatedAt pullRequest = Num u" and "u < x"
    by (cases t; cases "updatedAt pullRequest") auto
  from assms(2) have "NaN \<notin> set (viewerTimes login pullRequest)"
    by (rule realDate_not_NaN)
  with fold_Math_max_Num [of "viewerTimes login pullRequest" 0] obtain b where
    b: "fold Math_max (viewerTimes login pullRequest) (Num 0) = Num b"
      "\<forall>t. Num t \<in> set (viewerTimes login pullRequest) \<longrightarrow> t \<le> b"
    by blast
  from b(2) t x have "x \<le> b" by blast
  with \<open>u < x\<close> b(1) u show r: "isReviewed login pullRequest"
    by (simp add: isReviewed_viewerTimes)
  then show "pullRequest \<notin> set (excludeReviewedPullRequests login pullRequests)"
    by (simp add: set_excludeReviewedPullRequests)
next
  assume h: "updatedAt pullRequest \<in> set (viewerTimes login pullRequest) \<and>
          (\<forall>t\<in>set (viewerTimes login pullRequest). \<not> js_greater t (updatedAt pullRequest)) \<and>
          pullRequest \<in> set pullRequests"
  with assms(2) have "realDate (updatedAt pullRequest)" by blast
  then have "\<not> js_greater (Num 0) (updatedAt pullRequest)"
    by (rule realDate_not_before_sentinel)
  with h have "\<not> js_greater (fold Math_max (viewerTimes login pullRequest) (Num 0))
                 (updatedAt pullRequest)"
    by (intro fold_Math_max_not_greater) auto
  with assms(1) show r: "\<not> isReviewed login pullRequest"
    by (simp add: isReviewed_viewerTimes)
  with h show "pullRequest \<in> set (excludeReviewedPullRequests login pullRequests)"
    by (simp add: set_excludeReviewedPullRequests)
qed

theorem strict_boundary_witness:
  "\<not> (\<exists>r\<in>set (reviews pr_later). author r = ''me'' \<and> state r = ''APPROVED'') \<and>
   viewerTimes ''me'' pr_later = [Num 60] \<and> updatedAt pr_later = Num 50 \<and>
   isReviewed ''me'' pr_later \<and>
   pr_later \<notin> set (excludeReviewedPullRequests ''me'' [pr_later, pr_equal]) \<and>
   \<not> (\<exists>r\<in>set (reviews pr_equal). author r = ''me'' \<and> state r = ''APPROVED'') \<and>
   viewerTimes ''me'' pr_equal = [Num 40, Num 50] \<and> updatedAt pr_equal = Num 50 \<and>
   \<not> isReviewed ''me'' pr_equal \<and>
   pr_equal \<in> set (excludeReviewedPullRequests ''me'' [pr_later, pr_equal])"
  using strict_boundary [of pr_later "''me''" "[pr_later, pr_equal]"]
    strict_boundary [of pr_equal "''me''" "[pr_later, pr_equal]"]
  by (simp add: viewerTimes_def pr_later_def pr_equal_def)

text \<open>
  C3. A pull request without any review or comment of the viewer is unreviewed, for
  every real date \<open>updatedAt\<close>: the time the loops start from, the epoch, is not later
  than any of them.
\<close>

theorem no_activity_is_unreviewed:
  assumes "\<forall>r\<in>set (reviews pullRequest). author r \<noteq> login"
    and "\<forall>c\<in>set (comments pullRequest). author c \<noteq> login"
    and "realDate (updatedAt pullRequest)"
  shows "\<not> isReviewed login pullRequest \<and>
         (pullRequest \<in> set pullRequests \<longrightarrow>
          pullRequest \<in> set (excludeReviewedPullRequests login pullRequests))"
proof -
  from assms(1,2) have "viewerTimes login pullRequest = []"
    by (simp add: viewerTimes_def filter_empty_conv)
  moreover from assms(3) have "\<not> js_greater (Num 0) (updatedAt pullRequest)"
    by (rule realDate_not_before_sentinel)
  ultimately have "\<not> isReviewed login pullRequest"
    using assms(1) by (auto simp: isReviewed_viewerTimes)
  then show ?thesis by (simp add: set_excludeReviewedPullRequests)
qed

theorem no_activity_is_unreviewed_witness:
  "map author (reviews pr_untouched) = [''eve''] \<and>
   map author (comments pr_untouched) = [''bob''] \<and>
   updatedAt pr_untouched = Num 50 \<and>
   \<not> isReviewed ''me'' pr_untouched \<and>
   pr_untouched \<in> set (excludeReviewedPullRequests ''me'' [pr_untouched])"
  using no_activity_is_unreviewed [of pr_untouched "''me''" "[pr_untouched]"]
  by (simp add: pr_untouched_def)

section \<open>Properties of the relevance filter\<close>

lemma set_fold_Set_add:
  "set (fold (\<lambda>x s. if P x then Set_add s p else s) xs s) =
     (if \<exists>x\<in>set xs. P x then insert p (set s) else set s)"
  by (induction xs arbitrary: s) (auto simp: set_Set_add)

lemma distinct_fold_Set_add:
  "distinct s \<Longrightarrow> distinct (fold (\<lambda>x s. if P x then Set_add s p else s) xs s)"
  by (induction xs arbitrary: s) (simp_all add: distinct_Set_add)

lemma set_inner_loops:
  "set (reviewers_loop login p (reviewRequests_loop login p (assignees_loop login p s))) =
     (if (login \<in> set (assignees p) \<or> Some login \<in> set (reviewRequests p) \<or>
        (\<exists>r\<in>set (reviews p). author r = login))
      then insert p (set s) else set s)"
  by (auto simp: reviewers_loop_def reviewRequests_loop_def assignees_loop_def
      set_fold_Set_add)

lemma distinct_inner_loops:
  "distinct s \<Longrightarrow>
   distinct (reviewers_loop login p (reviewRequests_loop login p (assignees_loop login p s)))"
  by (simp add: reviewers_loop_def reviewRequests_loop_def assignees_loop_def
      distinct_fold_Set_add)

lemma set_pullRequest_loop:
  "set (pullRequest_loop login nodes s) =
     set s \<union> {p \<in> set nodes. author p \<noteq> login \<and>
       (login \<in> set (assignees p) \<or> Some login \<in> set (reviewRequests p) \<or>
        (\<exists>r\<in>set (reviews p). author r = login))}"
  unfolding pullRequest_loop_def
  by (induction nodes arbitrary: s) (auto simp: set_inner_loops)

lemma distinct_pullRequest_loop:
  "distinct s \<Longrightarrow> distinct (pullRequest_loop login nodes s)"
  unfolding pullRequest_loop_def
  by (induction nodes arbitrary: s) (simp_all add: distinct_inner_loops)

lemma set_repository_loop:
  "set (repository_loop login repos s) =
     set s \<union> {p \<in> (\<Union>repository\<in>set repos. set (pullRequestNodes repository)).
                 author p \<noteq> login \<and>
       (login \<in> set (assignees p) \<or> Some login \<in> set (reviewRequests p) \<or>
        (\<exists>r\<in>set (reviews p). author r = login))}"
  unfolding repository_loop_def
  by (induction repos arbitrary: s) (auto simp: set_pullRequest_loop)

lemma distinct_repository_loop:
  "distinct s \<Longrightarrow> distinct (repository_loop login repos s)"
  unfolding repository_loop_def
  by (induction repos arbitrary: s) (simp_all add: distinct_pullRequest_loop)

lemma loadPullRequests_Inr:
  assumes "loadPullRequests env token w = (Inr (login, pullRequests), w')"
  shows "\<exists>response result viewer.
           fetch env token = Inr response \<and> json response = Inr result \<and>
           data result = Some viewer \<and> login = viewer_login viewer \<and>
           pullRequests = repository_loop login (repositories viewer) [] \<and>
           w' = log_call (Call_fetch token) w"
  using assms
  by (auto simp: loadPullRequests_def selectPullRequests_def Let_def
      split: sum.splits option.splits list.splits if_splits)


text \<open>
  C4. When \<open>loadPullRequests\<close> returns, its set holds exactly the fetched pull requests
  that the viewer did not write and of which the viewer is an assignee, a requested
  reviewer or the author of a review, each once. A pull request the viewer
  wrote is left out whatever its assignees, review requests and reviews.
\<close>

theorem relevance_filter:
  assumes "loadPullRequests env token w = (Inr (login, pullRequests), w')"
  shows "\<exists>response result viewer.
           fetch env token = Inr response \<and> json response = Inr result \<and>
           data result = Some viewer \<and> login = viewer_login viewer \<and>
           set pullRequests =
             {p \<in> (\<Union>repository\<in>set (repositories viewer). set (pullRequestNodes repository)).
                author p \<noteq> login \<and>
                (login \<in> set (assignees p) \<or> Some login \<in> set (reviewRequests p) \<or>
                 (\<exists>r\<in>set (reviews p). author r = login))} \<and>
           distinct pullRequests \<and>
           (\<forall>p\<in>set pullRequests. author p \<noteq> login)"
proof -
  from loadPullRequests_Inr [OF assms] obtain response result viewer where
    h: "fetch env token = Inr response" "json response = Inr result"
       "data result = Some viewer" "login = viewer_login viewer"
       "pullRequests = repository_loop login (repositories viewer) []"
    by blast
  have s: "set pullRequests =
             {p \<in> (\<Union>repository\<in>set (repositories viewer). set (pullRequestNodes repository)).
                author p \<noteq> login \<and>
                (login \<in> set (assignees p) \<or> Some login \<in> set (reviewRequests p) \<or>
                 (\<exists>r\<in>set (reviews p). author r = login))}"
    unfolding h(5) set_repository_loop by simp
  have d: "distinct pullRequests"
    unfolding h(5) by (rule distinct_repository_loop) simp
  from s have "\<forall>p\<in>set pullRequests. author p \<noteq> login" by blast
  with h s d show ?thesis by blast
qed

lemma loadPullRequests_sample:
  "loadPullRequests env_sample ''token'' w =
     (Inr (''me'', [pr_approved, pr_untouched]), log_call (Call_fetch ''token'') w)"
  by (simp add: loadPullRequests_def selectPullRequests_def env_sample_def result_sample_def
      repo_sample_def repository_loop_def pullRequest_loop_def reviewers_loop_def
      reviewRequests_loop_def assignees_loop_def Set_add_def Set_has_def
      pr_approved_def pr_untouched_def pr_own_def pr_foreign_def)

theorem relevance_filter_witness:
  "loadPullRequests env_sample ''token'' world0 =
     (Inr (''me'', [pr_approved, pr_untouched]), log_call (Call_fetch ''token'') world0) \<and>
   author pr_own = ''me'' \<and> assignees pr_own = [''me''] \<and>
   reviewRequests pr_own = [Some ''me''] \<and> map author (reviews pr_own) = [''me''] \<and>
   pr_own \<notin> set [pr_approved, pr_untouched] \<and>
   (\<exists>viewer. data result_sample = Some viewer \<and>
      set [pr_approved, pr_untouched] =
        {p \<in> (\<Union>repository\<in>set (repositories viewer). set (pullRequestNodes repository)).
           author p \<noteq> ''me'' \<and>
           (''me'' \<in> set (assignees p) \<or> Some ''me'' \<in> set (reviewRequests p) \<or>
            (\<exists>r\<in>set (reviews p). author r = ''me''))})"
proof -
  note l = loadPullRequests_sample [of world0]
  from relevance_filter [OF l] obtain response result viewer where
    h: "fetch env_sample ''token'' = Inr response" "json response = Inr result"
       "data result = Some viewer"
       "set [pr_approved, pr_untouched] =
          {p \<in> (\<Union>repository\<in>set (repositories viewer). set (pullRequestNodes repository)).
             author p \<noteq> ''me'' \<and>
             (''me'' \<in> set (assignees p) \<or> Some ''me'' \<in> set (reviewRequests p) \<or>
              (\<exists>r\<in>set (reviews p). author r = ''me''))}"
    by blast
  from h(1,2) have "result = result_sample" by (auto simp: env_sample_def)
  with h(3,4) have "\<exists>viewer. data result_sample = Some viewer \<and>
      set [pr_approved, pr_untouched] =
        {p \<in> (\<Union>repository\<in>set (repositories viewer). set (pullRequestNodes repository)).
           author p \<noteq> ''me'' \<and>
           (''me'' \<in> set (assignees p) \<or> Some ''me'' \<in> set (reviewRequests p) \<or>
            (\<exists>r\<in>set (reviews p). author r = ''me''))}"
    by blast
  moreover have "pr_own \<notin> set [pr_approved, pr_untouched]"
    by (simp add: pr_own_def pr_approved_def pr_untouched_def)
  moreover have "author pr_own = ''me'' \<and> assignees pr_own = [''me''] \<and>
     reviewRequests pr_own = [Some ''me''] \<and> map author (reviews pr_own) = [''me'']"
    by (simp add: pr_own_def)
  ultimately show ?thesis using l by blast
qed

section \<open>Properties of the notification step\<close>

lemma created_append: "created (xs @ ys) = created xs @ created ys"
  by (induction xs rule: created.induct) simp_all

lemma set_new_Set_aux: "set (fold (\<lambda>x s. Set_add s x) xs s) = set s \<union> set xs"
  by (induction xs arbitrary: s) (auto simp: set_Set_add)

lemma set_new_Set: "set (new_Set xs) = set xs"
  by (simp add: new_Set_def set_new_Set_aux)

lemma log_call_simps:
  "storage (log_call c w) = storage w"
  "badgeText (log_call c w) = badgeText w"
  "badgeBackgroundColor (log_call c w) = badgeBackgroundColor w"
  "calls (log_call c w) = calls w @ [c]"
  by (simp_all add: log_call_def)

lemma showNotification_simps:
  "storage (showNotification p w) = storage w"
  "badgeText (showNotification p w) = badgeText w"
  "badgeBackgroundColor (showNotification p w) = badgeBackgroundColor w"
  "calls (showNotification p w) =
     calls w @ [Notifications_create (url p)
                  \<lparr>n_type = ''basic'', n_iconUrl = ''images/GitHub-Mark-120px-plus.png'',
                   n_title = ''New pull request'', n_message = title p,
                   n_requireInteraction = True\<rparr>]"
  by (simp_all add: showNotification_def log_call_simps Let_def)

lemma notify_loop_simps:
  "storage (notify_loop seen prs w) = storage w"
  "badgeText (notify_loop seen prs w) = badgeText w"
  "badgeBackgroundColor (notify_loop seen prs w) = badgeBackgroundColor w"
  unfolding notify_loop_def
  by (induction prs arbitrary: w) (simp_all add: showNotification_simps log_call_simps)

lemma calls_notify_loop:
  "calls (notify_loop seen prs w) =
     calls w @
     concat (map (\<lambda>p. if url p \<in> set seen
                       then [Console_log (''Filtering '' @ url p)]
                       else [Console_log (''Showing '' @ url p),
                             Notifications_create (url p)
                               \<lparr>n_type = ''basic'',
                                n_iconUrl = ''images/GitHub-Mark-120px-plus.png'',
                                n_title = ''New pull request'', n_message = title p,
                                n_requireInteraction = True\<rparr>]) prs)"
  unfolding notify_loop_def
  by (induction prs arbitrary: w)
     (simp_all add: showNotification_simps log_call_simps Set_has_def)

lemma created_notify_calls:
  "created (concat (map (\<lambda>p. if url p \<in> S
                       then [Console_log (''Filtering '' @ url p)]
                       else [Console_log (''Showing '' @ url p),
                             Notifications_create (url p) (f p)]) prs)) =
     map (\<lambda>p. (url p, f p)) (filter (\<lambda>p. url p \<notin> S) prs)"
  by (induction prs) simp_all

lemma recordSeenPullRequests_simps:
  "lastSeenPullRequests (storage (recordSeenPullRequests prs w)) = Some (map url prs)"
  "unreviewedPullRequests (storage (recordSeenPullRequests prs w)) =
     unreviewedPullRequests (storage w)"
  "error (storage (recordSeenPullRequests prs w)) = error (storage w)"
  "badgeText (recordSeenPullRequests prs w) = badgeText w"
  "badgeBackgroundColor (recordSeenPullRequests prs w) = badgeBackgroundColor w"
  "calls (recordSeenPullRequests prs w) =
     calls w @ [Storage_set_lastSeenPullRequests (map url prs)]"
  by (simp_all add: recordSeenPullRequests_def log_call_simps)

lemma fst_getLastSeenPullRequestsUrls:
  "fst (getLastSeenPullRequestsUrls w) =
     (case lastSeenPullRequests (storage w) of None \<Rightarrow> [] | Some urls \<Rightarrow> urls)"
  by (simp add: getLastSeenPullRequestsUrls_def)

lemma calls_showNotificationForNewPullRequests:
  "calls (showNotificationForNewPullRequests prs w) =
     calls w @ [Storage_get_lastSeenPullRequests] @
     concat (map (\<lambda>p. if url p \<in> set (fst (getLastSeenPullRequestsUrls w))
                       then [Console_log (''Filtering '' @ url p)]
                       else [Console_log (''Showing '' @ url p),
                             Notifications_create (url p)
                               \<lparr>n_type = ''basic'',
                                n_iconUrl = ''images/GitHub-Mark-120px-plus.png'',
                                n_title = ''New pull request'', n_message = title p,
                                n_requireInteraction = True\<rparr>]) prs) @
     [Storage_set_lastSeenPullRequests (map url prs)]"
  by (simp add: showNotificationForNewPullRequests_def getLastSeenPullRequestsUrls_def
      recordSeenPullRequests_simps calls_notify_loop set_new_Set log_call_simps)

lemma showNotificationForNewPullRequests_simps:
  "lastSeenPullRequests (storage (showNotificationForNewPullRequests prs w)) =
     Some (map url prs)"
  "unreviewedPullRequests (storage (showNotificationForNewPullRequests prs w)) =
     unreviewedPullRequests (storage w)"
  "error (storage (showNotificationForNewPullRequests prs w)) = error (storage w)"
  "badgeText (showNotificationForNewPullRequests prs w) = badgeText w"
  "badgeBackgroundColor (showNotificationForNewPullRequests prs w) = badgeBackgroundColor w"
  by (simp_all add: showNotificationForNewPullRequests_def getLastSeenPullRequestsUrls_def
      recordSeenPullRequests_simps notify_loop_simps log_call_simps)

lemma url_pr_untouched: "url pr_untouched = ''https://github.com/o/r/pull/6''"
  by (simp add: pr_untouched_def)

lemma title_pr_untouched: "title pr_untouched = ''New''"
  by (simp add: pr_untouched_def)

lemma url_pr_equal: "url pr_equal = ''https://github.com/o/r/pull/3''"
  by (simp add: pr_equal_def)

lemma title_pr_equal: "title pr_equal = ''Tidy''"
  by (simp add: pr_equal_def)

lemma world_seen_simps:
  "unreviewedPullRequests (storage world_seen) = Some [pr_untouched]"
  "lastSeenPullRequests (storage world_seen) = Some [''https://github.com/o/r/pull/6'']"
  "calls world_seen = []"
  by (simp_all add: world_seen_def)

text \<open>
  C5. The notifications \<open>showNotificationForNewPullRequests\<close> creates are, in order, one
  for each item of the unreviewed set whose url is not among the urls read from storage,
  and none for an item whose url is among them.
\<close>

theorem notifications_for_unseen_only:
  "created (calls (showNotificationForNewPullRequests unreviewed w)) =
     created (calls w) @
     map (\<lambda>p. (url p,
               \<lparr>n_type = ''basic'', n_iconUrl = ''images/GitHub-Mark-120px-plus.png'',
                n_title = ''New pull request'', n_message = title p,
                n_requireInteraction = True\<rparr>))
       (filter (\<lambda>p. url p \<notin> set (fst (getLastSeenPullRequestsUrls w))) unreviewed)"
  by (simp add: calls_showNotificationForNewPullRequests created_append created_notify_calls)

theorem notifications_for_unseen_only_witness:
  "fst (getLastSeenPullRequestsUrls world_seen) = [''https://github.com/o/r/pull/6''] \<and>
   map url [pr_untouched, pr_equal] =
     [''https://github.com/o/r/pull/6'', ''https://github.com/o/r/pull/3''] \<and>
   created (calls (showNotificationForNewPullRequests [pr_untouched, pr_equal] world_seen)) =
     [(''https://github.com/o/r/pull/3'',
       \<lparr>n_type = ''basic'', n_iconUrl = ''images/GitHub-Mark-120px-plus.png'',
        n_title = ''New pull request'', n_message = ''Tidy'', n_requireInteraction = True\<rparr>)]"
  using notifications_for_unseen_only [of "[pr_untouched, pr_equal]" world_seen]
  by (simp add: fst_getLastSeenPullRequestsUrls world_seen_simps url_pr_untouched url_pr_equal
      title_pr_equal)

text \<open>
  C7. Once \<open>showNotificationForNewPullRequests\<close> has run on an unreviewed set, a run on
  the same set from any browser that still holds the seen-set it stored creates no
  notification.
\<close>

theorem no_second_notification:
  assumes "lastSeenPullRequests (storage w') =
           lastSeenPullRequests (storage (showNotificationForNewPullRequests unreviewed w))"
  shows "created (calls (showNotificationForNewPullRequests unreviewed w')) = created (calls w')"
proof -
  from assms have "fst (getLastSeenPullRequestsUrls w') = map url unreviewed"
    by (simp add: showNotificationForNewPullRequests_simps getLastSeenPullRequestsUrls_def)
  then have "filter (\<lambda>p. url p \<notin> set (fst (getLastSeenPullRequestsUrls w'))) unreviewed = []"
    by (simp add: filter_empty_conv)
  then show ?thesis
    by (simp add: calls_showNotificationForNewPullRequests created_append created_notify_calls)
qed

theorem no_second_notification_witness:
  "created (calls (showNotificationForNewPullRequests [pr_untouched, pr_equal] world0)) =
     [(url pr_untouched,
       \<lparr>n_type = ''basic'', n_iconUrl = ''images/GitHub-Mark-120px-plus.png'',
        n_title = ''New pull request'', n_message = ''New'', n_requireInteraction = True\<rparr>),
      (url pr_equal,
       \<lparr>n_type = ''basic'', n_iconUrl = ''images/GitHub-Mark-120px-plus.png'',
        n_title = ''New pull request'', n_message = ''Tidy'', n_requireInteraction = True\<rparr>)] \<and>
   created (calls (showNotificationForNewPullRequests [pr_untouched, pr_equal]
                    (showNotificationForNewPullRequests [pr_untouched, pr_equal] world0))) =
     created (calls (showNotificationForNewPullRequests [pr_untouched, pr_equal] world0))"
proof -
  have "created (calls (showNotificationForNewPullRequests [pr_untouched, pr_equal] world0)) =
     [(url pr_untouched,
       \<lparr>n_type = ''basic'', n_iconUrl = ''images/GitHub-Mark-120px-plus.png'',
        n_title = ''New pull request'', n_message = ''New'', n_requireInteraction = True\<rparr>),
      (url pr_equal,
       \<lparr>n_type = ''basic'', n_iconUrl = ''images/GitHub-Mark-120px-plus.png'',
        n_title = ''New pull request'', n_message = ''Tidy'', n_requireInteraction = True\<rparr>)]"
    by (simp add: showNotificationForNewPullRequests_def getLastSeenPullRequestsUrls_def
        recordSeenPullRequests_def notify_loop_def showNotification_def log_call_def
        new_Set_def Set_has_def world0_def pr_untouched_def pr_equal_def)
  then show ?thesis
    using no_second_notification
      [of "showNotificationForNewPullRequests [pr_untouched, pr_equal] world0"
          "[pr_untouched, pr_equal]" world0]
    by simp
qed

section \<open>Properties of the cycle\<close>

lemma saveUnreviewedPullRequests_simps:
  "unreviewedPullRequests (storage (saveUnreviewedPullRequests prs w)) = Some prs"
  "lastSeenPullRequests (storage (saveUnreviewedPullRequests prs w)) =
     lastSeenPullRequests (storage w)"
  "error (storage (saveUnreviewedPullRequests prs w)) = error (storage w)"
  "badgeText (saveUnreviewedPullRequests prs w) = badgeText w"
  "badgeBackgroundColor (saveUnreviewedPullRequests prs w) = badgeBackgroundColor w"
  "calls (saveUnreviewedPullRequests prs w) =
     calls w @ [Storage_set_unreviewedPullRequests prs]"
  by (simp_all add: saveUnreviewedPullRequests_def log_call_simps)

lemma updateBadge_simps:
  "storage (updateBadge n w) = storage w"
  "badgeText (updateBadge n w) = toString n"
  "badgeBackgroundColor (updateBadge n w) = (if n = 0 then ''#4d4'' else ''#f00'')"
  "calls (updateBadge n w) =
     calls w @ [BrowserAction_setBadgeText (toString n),
                BrowserAction_setBadgeBackgroundColor (if n = 0 then ''#4d4'' else ''#f00'')]"
  by (simp_all add: updateBadge_def setBadgeText_def setBadgeBackgroundColor_def log_call_simps
      del: toString.simps)

lemma showBadgeError_simps:
  "storage (showBadgeError w) = storage w"
  "badgeText (showBadgeError w) = ''!''"
  "badgeBackgroundColor (showBadgeError w) = ''#000''"
  "calls (showBadgeError w) =
     calls w @ [BrowserAction_setBadgeText ''!'', BrowserAction_setBadgeBackgroundColor ''#000'']"
  by (simp_all add: showBadgeError_def setBadgeText_def setBadgeBackgroundColor_def log_call_simps)

lemma set_error_simps:
  "error (storage (set_error m w)) = Some m"
  "unreviewedPullRequests (storage (set_error m w)) = unreviewedPullRequests (storage w)"
  "lastSeenPullRequests (storage (set_error m w)) = lastSeenPullRequests (storage w)"
  "badgeText (set_error m w) = badgeText w"
  "badgeBackgroundColor (set_error m w) = badgeBackgroundColor w"
  "calls (set_error m w) = calls w @ [Storage_set_error m]"
  by (simp_all add: set_error_def log_call_simps)

lemma loadPullRequests_world:
  "storage (snd (loadPullRequests env token w)) = storage w"
  "badgeText (snd (loadPullRequests env token w)) = badgeText w"
  "badgeBackgroundColor (snd (loadPullRequests env token w)) = badgeBackgroundColor w"
  "created (calls (snd (loadPullRequests env token w))) = created (calls w)"
  by (simp_all add: loadPullRequests_def Let_def log_call_simps created_append
      split: sum.splits option.splits list.splits)

lemma try_block_load_fails:
  assumes "getGitHubApiToken env = Inr token"
    and "fst (loadPullRequests env token (log_call Call_getGitHubApiToken w)) = Inl e"
  shows "try_block env w =
           (Some e, snd (loadPullRequests env token (log_call Call_getGitHubApiToken w)))"
  using assms
  by (cases "loadPullRequests env token (log_call Call_getGitHubApiToken w)")
     (simp add: try_block_def Let_def)

lemma try_block_succeeds:
  assumes "getGitHubApiToken env = Inr token"
    and "loadPullRequests env token (log_call Call_getGitHubApiToken w) =
           (Inr (login, pullRequests), w1)"
    and "throws env SaveUnreviewedPullRequests = None"
    and "throws env UpdateBadge = None"
    and "throws env ShowNotificationForNewPullRequests = None"
  shows "try_block env w =
           (None,
            showNotificationForNewPullRequests (excludeReviewedPullRequests login pullRequests)
              (updateBadge (length (excludeReviewedPullRequests login pullRequests))
                (saveUnreviewedPullRequests (excludeReviewedPullRequests login pullRequests)
                   w1)))"
  using assms by (simp add: try_block_def attempt_def Let_def)

lemma try_block_badge_fails:
  assumes "getGitHubApiToken env = Inr token"
    and "loadPullRequests env token (log_call Call_getGitHubApiToken w) =
           (Inr (login, pullRequests), w1)"
    and "throws env SaveUnreviewedPullRequests = None"
    and "throws env UpdateBadge = Some e"
  shows "try_block env w =
           (Some e,
            saveUnreviewedPullRequests (excludeReviewedPullRequests login pullRequests) w1)"
  using assms by (simp add: try_block_def attempt_def Let_def)

lemma try_block_notify_fails:
  assumes "getGitHubApiToken env = Inr token"
    and "loadPullRequests env token (log_call Call_getGitHubApiToken w) =
           (Inr (login, pullRequests), w1)"
    and "throws env SaveUnreviewedPullRequests = None"
    and "throws env UpdateBadge = None"
    and "throws env ShowNotificationForNewPullRequests = Some e"
  shows "try_block env w =
           (Some e,
            updateBadge (length (excludeReviewedPullRequests login pullRequests))
              (saveUnreviewedPullRequests (excludeReviewedPullRequests login pullRequests)
                 w1))"
  using assms by (simp add: try_block_def attempt_def Let_def)

lemma excludeReviewedPullRequests_sample:
  "excludeReviewedPullRequests ''me'' [pr_approved, pr_untouched] = [pr_untouched]"
  by (simp add: excludeReviewedPullRequests_def isReviewed_def getLastUpdatedTime_def
      Set_add_def Set_has_def pr_approved_def pr_untouched_def)

lemma loadPullRequests_badge_throws:
  "loadPullRequests env_badge_throws ''token'' w =
     (Inr (''me'', [pr_approved, pr_untouched]), log_call (Call_fetch ''token'') w)"
  by (simp add: loadPullRequests_def selectPullRequests_def env_badge_throws_def
      result_sample_def repo_sample_def repository_loop_def pullRequest_loop_def
      reviewers_loop_def reviewRequests_loop_def assignees_loop_def Set_add_def Set_has_def
      pr_approved_def pr_untouched_def pr_own_def pr_foreign_def)

lemma env_sample_simps:
  "getGitHubApiToken env_sample = Inr ''token''"
  "throws env_sample s = None"
  by (simp_all add: env_sample_def)

lemma env_badge_throws_simps:
  "getGitHubApiToken env_badge_throws = Inr ''token''"
  "throws env_badge_throws SaveUnreviewedPullRequests = None"
  "throws env_badge_throws UpdateBadge = Some (Error ''No badge'')"
  by (simp_all add: env_badge_throws_def)

lemma getGitHubApiToken_offline: "getGitHubApiToken env_offline = Inr ''token''"
  by (simp add: env_offline_def)

lemma loadPullRequests_offline:
  "loadPullRequests env_offline ''token'' w =
     (Inl (Error ''Failed to fetch''), log_call (Call_fetch ''token'') w)"
  by (simp add: loadPullRequests_def env_offline_def)

text \<open>
  C6. The seen-set \<open>showNotificationForNewPullRequests\<close> stores is the list of the urls
  of all items of the unreviewed set, whatever was stored before; and a cycle in which
  nothing throws ends with the unreviewed set the classifier computed under
  \<open>unreviewedPullRequests\<close> and its urls under \<open>lastSeenPullRequests\<close>.
\<close>

theorem seen_set_is_urls_of_unreviewed:
  "lastSeenPullRequests (storage (showNotificationForNewPullRequests unreviewed w)) =
     Some (map url unreviewed) \<and>
   (getGitHubApiToken env = Inr token \<and>
    loadPullRequests env token (log_call Call_getGitHubApiToken w) =
      (Inr (login, pullRequests), w1) \<and>
    throws env SaveUnreviewedPullRequests = None \<and> throws env UpdateBadge = None \<and>
    throws env ShowNotificationForNewPullRequests = None
    \<longrightarrow> unreviewedPullRequests (storage (checkPullRequests env w)) =
          Some (excludeReviewedPullRequests login pullRequests) \<and>
        lastSeenPullRequests (storage (checkPullRequests env w)) =
          Some (map url (excludeReviewedPullRequests login pullRequests)))"
proof (intro conjI impI)
  show "lastSeenPullRequests (storage (showNotificationForNewPullRequests unreviewed w)) =
     Some (map url unreviewed)"
    by (simp add: showNotificationForNewPullRequests_simps)
next
  assume h: "getGitHubApiToken env = Inr token \<and>
    loadPullRequests env token (log_call Call_getGitHubApiToken w) =
      (Inr (login, pullRequests), w1) \<and>
    throws env SaveUnreviewedPullRequests = None \<and> throws env UpdateBadge = None \<and>
    throws env ShowNotificationForNewPullRequests = None"
  then have h1: "getGitHubApiToken env = Inr token"
    and h2: "loadPullRequests env token (log_call Call_getGitHubApiToken w) =
      (Inr (login, pullRequests), w1)"
    and h3: "throws env SaveUnreviewedPullRequests = None"
    and h4: "throws env UpdateBadge = None"
    and h5: "throws env ShowNotificationForNewPullRequests = None"
    by blast+
  note t = try_block_succeeds [OF h1 h2 h3 h4 h5]
  show "unreviewedPullRequests (storage (checkPullRequests env w)) =
          Some (excludeReviewedPullRequests login pullRequests)"
    by (simp add: checkPullRequests_def t set_error_simps
        showNotificationForNewPullRequests_simps updateBadge_simps
        saveUnreviewedPullRequests_simps del: toString.simps)
  show "lastSeenPullRequests (storage (checkPullRequests env w)) =
          Some (map url (excludeReviewedPullRequests login pullRequests))"
    by (simp add: checkPullRequests_def t set_error_simps
        showNotificationForNewPullRequests_simps)
qed

theorem seen_set_is_urls_of_unreviewed_witness:
  "lastSeenPullRequests (storage world_seen) = Some [''https://github.com/o/r/pull/6''] \<and>
   loadPullRequests env_sample ''token'' (log_call Call_getGitHubApiToken world_seen) =
     (Inr (''me'', [pr_approved, pr_untouched]),
      log_call (Call_fetch ''token'') (log_call Call_getGitHubApiToken world_seen)) \<and>
   unreviewedPullRequests (storage (checkPullRequests env_sample world_seen)) =
     Some [pr_untouched] \<and>
   lastSeenPullRequests (storage (checkPullRequests env_sample world_seen)) =
     Some [''https://github.com/o/r/pull/6''] \<and>
   created (calls (checkPullRequests env_sample world_seen)) = [] \<and>
   lastSeenPullRequests
     (storage (showNotificationForNewPullRequests [pr_equal, pr_untouched] world_seen)) =
     Some [''https://github.com/o/r/pull/3'', ''https://github.com/o/r/pull/6'']"
proof -
  have c: "created (calls (checkPullRequests env_sample world_seen)) = []"
    by (simp add: checkPullRequests_def try_block_def loadPullRequests_sample
        excludeReviewedPullRequests_sample attempt_def Let_def env_sample_simps
        set_error_simps calls_showNotificationForNewPullRequests
        fst_getLastSeenPullRequestsUrls updateBadge_simps saveUnreviewedPullRequests_simps
        log_call_simps url_pr_untouched world_seen_simps created_append)
  show ?thesis
    using seen_set_is_urls_of_unreviewed
      [of "[pr_equal, pr_untouched]" world_seen env_sample "''token''" "''me''"
          "[pr_approved, pr_untouched]"
          "log_call (Call_fetch ''token'') (log_call Call_getGitHubApiToken world_seen)"]
      c
    by (simp add: loadPullRequests_sample excludeReviewedPullRequests_sample env_sample_simps
        world_seen_simps url_pr_untouched url_pr_equal)
qed

text \<open>
  C8. When \<open>loadPullRequests\<close> throws, the cycle still runs to its end
  (\<open>checkPullRequests\<close> yields a browser state for every environment): the badge shows
  the error, the message of the error is stored under \<open>error\<close>, the stored unreviewed
  set and seen-set are the ones from before, and no notification is created.
\<close>

theorem fetch_failure_is_contained:
  assumes "getGitHubApiToken env = Inr token"
    and "fst (loadPullRequests env token (log_call Call_getGitHubApiToken w)) = Inl e"
  shows "badgeText (checkPullRequests env w) = ''!'' \<and>
         badgeBackgroundColor (checkPullRequests env w) = ''#000'' \<and>
         error (storage (checkPullRequests env w)) = Some (Some (message e)) \<and>
         unreviewedPullRequests (storage (checkPullRequests env w)) =
           unreviewedPullRequests (storage w) \<and>
         lastSeenPullRequests (storage (checkPullRequests env w)) =
           lastSeenPullRequests (storage w) \<and>
         created (calls (checkPullRequests env w)) = created (calls w)"
  by (simp add: checkPullRequests_def try_block_load_fails [OF assms] set_error_simps
      showBadgeError_simps loadPullRequests_world log_call_simps created_append)

theorem fetch_failure_is_contained_witness:
  "getGitHubApiToken env_offline = Inr ''token'' \<and>
   fst (loadPullRequests env_offline ''token'' (log_call Call_getGitHubApiToken world_seen)) =
     Inl (Error ''Failed to fetch'') \<and>
   unreviewedPullRequests (storage world_seen) = Some [pr_untouched] \<and>
   badgeText (checkPullRequests env_offline world_seen) = ''!'' \<and>
   badgeBackgroundColor (checkPullRequests env_offline world_seen) = ''#000'' \<and>
   error (storage (checkPullRequests env_offline world_seen)) = Some (Some ''Failed to fetch'') \<and>
   unreviewedPullRequests (storage (checkPullRequests env_offline world_seen)) =
     Some [pr_untouched] \<and>
   lastSeenPullRequests (storage (checkPullRequests env_offline world_seen)) =
     Some [''https://github.com/o/r/pull/6'']"
  using fetch_failure_is_contained
    [of env_offline "''token''" world_seen "Error ''Failed to fetch''"]
  by (simp add: loadPullRequests_offline world_seen_simps getGitHubApiToken_offline)

text \<open>
  C9 does not hold as it reads: the unreviewed set is stored and the badge is updated
  before the notifications are created, as the calls of this cycle show.
\<close>

theorem cycle_order_counterexample:
  "calls (checkPullRequests env_sample world0) =
     [Call_getGitHubApiToken, Call_fetch ''token'',
      Storage_set_unreviewedPullRequests [pr_untouched],
      BrowserAction_setBadgeText ''1'',
      BrowserAction_setBadgeBackgroundColor ''#f00'',
      Storage_get_lastSeenPullRequests,
      Console_log ''Showing https://github.com/o/r/pull/6'',
      Notifications_create ''https://github.com/o/r/pull/6''
        \<lparr>n_type = ''basic'', n_iconUrl = ''images/GitHub-Mark-120px-plus.png'',
         n_title = ''New pull request'', n_message = ''New'', n_requireInteraction = True\<rparr>,
      Storage_set_lastSeenPullRequests [''https://github.com/o/r/pull/6''],
      Storage_set_error None]"
proof -
  have t: "try_block env_sample world0 =
      (None,
       showNotificationForNewPullRequests [pr_untouched]
         (updateBadge 1 (saveUnreviewedPullRequests [pr_untouched]
            (log_call (Call_fetch ''token'') (log_call Call_getGitHubApiToken world0)))))"
    by (simp add: try_block_def loadPullRequests_sample excludeReviewedPullRequests_sample
        attempt_def Let_def env_sample_simps)
  show ?thesis
    unfolding checkPullRequests_def t
    by (simp add: set_error_simps calls_showNotificationForNewPullRequests
        fst_getLastSeenPullRequestsUrls updateBadge_simps saveUnreviewedPullRequests_simps
        log_call_simps url_pr_untouched title_pr_untouched world0_def)
qed

text \<open>
  C9, amended. A cycle in which nothing throws makes its calls in this order: token,
  request, storing of the unreviewed set, badge text and colour, reading of the seen-set,
  one log line per item with a notification for each unseen one, storing of the seen-set,
  storing of the error field. The unreviewed set and the badge are written before the
  notifications, the seen-set and the error field after them.
\<close>

theorem cycle_order:
  assumes "getGitHubApiToken env = Inr token"
    and "loadPullRequests env token (log_call Call_getGitHubApiToken w) =
           (Inr (login, pullRequests), w1)"
    and "throws env SaveUnreviewedPullRequests = None"
    and "throws env UpdateBadge = None"
    and "throws env ShowNotificationForNewPullRequests = None"
    and "unreviewed = excludeReviewedPullRequests login pullRequests"
  shows "calls (checkPullRequests env w) =
           calls w @
           [Call_getGitHubApiToken, Call_fetch token,
            Storage_set_unreviewedPullRequests unreviewed,
            BrowserAction_setBadgeText (toString (length unreviewed)),
            BrowserAction_setBadgeBackgroundColor
              (if length unreviewed = 0 then ''#4d4'' else ''#f00''),
            Storage_get_lastSeenPullRequests] @
           concat (map (\<lambda>p. if url p \<in> set (fst (getLastSeenPullRequestsUrls w))
                       then [Console_log (''Filtering '' @ url p)]
                       else [Console_log (''Showing '' @ url p),
                             Notifications_create (url p)
                               \<lparr>n_type = ''basic'',
                                n_iconUrl = ''images/GitHub-Mark-120px-plus.png'',
                                n_title = ''New pull request'', n_message = title p,
                                n_requireInteraction = True\<rparr>]) unreviewed) @
           [Storage_set_lastSeenPullRequests (map url unreviewed), Storage_set_error None]"
proof -
  from loadPullRequests_Inr [OF assms(2)]
  have w1: "w1 = log_call (Call_fetch token) (log_call Call_getGitHubApiToken w)" by blast
  show ?thesis
    unfolding checkPullRequests_def try_block_succeeds [OF assms(1-5)] assms(6) [symmetric]
    by (simp add: set_error_simps calls_showNotificationForNewPullRequests
        fst_getLastSeenPullRequestsUrls updateBadge_simps saveUnreviewedPullRequests_simps w1 log_call_simps
        del: toString.simps)
qed

theorem cycle_order_witness:
  "loadPullRequests env_sample ''token'' (log_call Call_getGitHubApiToken world_seen) =
     (Inr (''me'', [pr_approved, pr_untouched]),
      log_call (Call_fetch ''token'') (log_call Call_getGitHubApiToken world_seen)) \<and>
   excludeReviewedPullRequests ''me'' [pr_approved, pr_untouched] = [pr_untouched] \<and>
   calls (checkPullRequests env_sample world_seen) =
     [Call_getGitHubApiToken, Call_fetch ''token'',
      Storage_set_unreviewedPullRequests [pr_untouched],
      BrowserAction_setBadgeText ''1'',
      BrowserAction_setBadgeBackgroundColor ''#f00'',
      Storage_get_lastSeenPullRequests,
      Console_log ''Filtering https://github.com/o/r/pull/6'',
      Storage_set_lastSeenPullRequests [''https://github.com/o/r/pull/6''],
      Storage_set_error None]"
  using cycle_order
    [of env_sample "''token''" world_seen "''me''" "[pr_approved, pr_untouched]"
        "log_call (Call_fetch ''token'') (log_call Call_getGitHubApiToken world_seen)"
        "[pr_untouched]"]
  by (simp add: loadPullRequests_sample excludeReviewedPullRequests_sample env_sample_simps
      fst_getLastSeenPullRequestsUrls world_seen_simps url_pr_untouched)

text \<open>
  C10. When the request and the save succeed and then \<open>updateBadge\<close> or
  \<open>showNotificationForNewPullRequests\<close> throws, the cycle stores the message of the
  error and shows the error badge, and \<open>unreviewedPullRequests\<close> holds the unreviewed set
  of this cycle.
\<close>

theorem late_failure_keeps_new_unreviewed_set:
  assumes "getGitHubApiToken env = Inr token"
    and "loadPullRequests env token (log_call Call_getGitHubApiToken w) =
           (Inr (login, pullRequests), w1)"
    and "throws env SaveUnreviewedPullRequests = None"
    and "throws env UpdateBadge = Some e \<or>
         throws env UpdateBadge = None \<and>
         throws env ShowNotificationForNewPullRequests = Some e"
  shows "unreviewedPullRequests (storage (checkPullRequests env w)) =
           Some (excludeReviewedPullRequests login pullRequests) \<and>
         error (storage (checkPullRequests env w)) = Some (Some (message e)) \<and>
         badgeText (checkPullRequests env w) = ''!'' \<and>
         badgeBackgroundColor (checkPullRequests env w) = ''#000''"
proof -
  from assms(4) show ?thesis
  proof
    assume "throws env UpdateBadge = Some e"
    from try_block_badge_fails [OF assms(1,2,3) this] show ?thesis
      by (simp add: checkPullRequests_def set_error_simps showBadgeError_simps
          saveUnreviewedPullRequests_simps)
  next
    assume "throws env UpdateBadge = None \<and>
         throws env ShowNotificationForNewPullRequests = Some e"
    then have "throws env UpdateBadge = None"
      "throws env ShowNotificationForNewPullRequests = Some e" by simp_all
    from try_block_notify_fails [OF assms(1,2,3) this] show ?thesis
      by (simp add: checkPullRequests_def set_error_simps showBadgeError_simps
          saveUnreviewedPullRequests_simps updateBadge_simps del: toString.simps)
  qed
qed

theorem late_failure_keeps_new_unreviewed_set_witness:
  "unreviewedPullRequests (storage world0) = None \<and>
   throws env_badge_throws UpdateBadge = Some (Error ''No badge'') \<and>
   loadPullRequests env_badge_throws ''token'' (log_call Call_getGitHubApiToken world0) =
     (Inr (''me'', [pr_approved, pr_untouched]),
      log_call (Call_fetch ''token'') (log_call Call_getGitHubApiToken world0)) \<and>
   unreviewedPullRequests (storage (checkPullRequests env_badge_throws world0)) =
     Some [pr_untouched] \<and>
   error (storage (checkPullRequests env_badge_throws world0)) = Some (Some ''No badge'') \<and>
   badgeText (checkPullRequests env_badge_throws world0) = ''!'' \<and>
   badgeBackgroundColor (checkPullRequests env_badge_throws world0) = ''#000''"
  using late_failure_keeps_new_unreviewed_set
    [of env_badge_throws "''token''" world0 "''me''" "[pr_approved, pr_untouched]"
        "log_call (Call_fetch ''token'') (log_call Call_getGitHubApiToken world0)"
        "Error ''No badge''"]
  by (simp add: loadPullRequests_badge_throws excludeReviewedPullRequests_sample
      env_badge_throws_simps world0_def)

end
